theory Spec2Isabelle
  imports Complex_Main
begin

section \<open>Errors and results\<close>

text \<open>
  The exceptions that the code of \<^verbatim>\<open>coral/sequence/_sequence.py\<close> can raise.
  \<^verbatim>\<open>ReError\<close> is the error of the \<^verbatim>\<open>re\<close> module on a malformed pattern.
  \<^verbatim>\<open>OutsideFragment\<close> is not a Python exception: it marks an input whose regular
  expression lies outside the fragment of \<^verbatim>\<open>re\<close> embedded below (literal characters
  and the dot), so that the model never gives an answer there that the code might not give.
\<close>

datatype error =
    ValueError
  | TypeError
  | AttributeError
  | AlphabetError
  | ZeroDivisionError
  | ReError
  | PrimerLengthError
  | OutsideFragment

definition bind_result :: "error + 'a \<Rightarrow> ('a \<Rightarrow> error + 'b) \<Rightarrow> error + 'b" where
  "bind_result m f = (case m of Inl e \<Rightarrow> Inl e | Inr x \<Rightarrow> f x)"

section \<open>Feature\<close>

text \<open>
  The attributes of \<^verbatim>\<open>class Feature\<close>, in the order \<^verbatim>\<open>__init__\<close> assigns them.
  \<^verbatim>\<open>qualifiers\<close> is a dictionary; it is kept as an association list, no operation
  below reads it.
\<close>

record feature =
  feature_name :: string
  start :: int
  stop :: int
  modified :: bool
  gene :: string
  locus_tag :: string
  qualifiers :: "(string \<times> string) list"
  strand :: int
  gaps :: "(int \<times> int) list"
  feature_type :: string

text \<open>
  \<^verbatim>\<open>Feature.__init__\<close>. The table \<^verbatim>\<open>featurenames\<close> is imported from
  \<^verbatim>\<open>genbank\<close>, which is not among the sources: it is a parameter. The arguments
  \<^verbatim>\<open>qualifiers\<close> and \<^verbatim>\<open>gaps\<close> default to \<^verbatim>\<open>None\<close>.
\<close>

definition feature_init ::
  "string list \<Rightarrow> string \<Rightarrow> int \<Rightarrow> int \<Rightarrow> string \<Rightarrow> string \<Rightarrow> string \<Rightarrow>
   (string \<times> string) list option \<Rightarrow> int \<Rightarrow> (int \<times> int) list option \<Rightarrow> error + feature" where
  "feature_init featurenames nm st sp ftype gn ltag quals strnd gps =
     (if ftype \<in> set featurenames
      then Inr \<lparr> feature_name = nm, start = st, stop = sp, modified = False,
                 gene = gn, locus_tag = ltag,
                 qualifiers = (case quals of None \<Rightarrow> [] | Some q \<Rightarrow> q),
                 strand = strnd,
                 gaps = (case gps of None \<Rightarrow> [] | Some g \<Rightarrow> g),
                 feature_type = ftype \<rparr>
      else Inl ValueError)"

text \<open>\<^verbatim>\<open>Feature.move\<close>: shifts both ends.\<close>

definition move :: "feature \<Rightarrow> int \<Rightarrow> feature" where
  "move f bases = f\<lparr>start := start f + bases, stop := stop f + bases\<rparr>"

text \<open>
  \<^verbatim>\<open>Feature.copy\<close>: the constructor is called with the name, the ends, the type,
  the gene, the locus tag, the qualifiers and the strand; \<^verbatim>\<open>gaps\<close> is not passed.
\<close>

definition feature_copy :: "string list \<Rightarrow> feature \<Rightarrow> error + feature" where
  "feature_copy featurenames f =
     feature_init featurenames (feature_name f) (start f) (stop f) (feature_type f)
       (gene f) (locus_tag f) (Some (qualifiers f)) (strand f) None"

text \<open>\<^verbatim>\<open>Feature.__eq__\<close>: six tests in sequence, each returning False on a difference.\<close>

definition feature_eq :: "feature \<Rightarrow> feature \<Rightarrow> bool" where
  "feature_eq f g =
     (if feature_name f \<noteq> feature_name g then False
      else if feature_type f \<noteq> feature_type g then False
      else if start f \<noteq> start g then False
      else if stop f \<noteq> stop g then False
      else if strand f \<noteq> strand g then False
      else if gaps f \<noteq> gaps g then False
      else True)"

text \<open>\<^verbatim>\<open>Feature.__ne__\<close>.\<close>

definition feature_ne :: "feature \<Rightarrow> feature \<Rightarrow> bool" where
  "feature_ne f g = (if \<not> feature_eq f g then True else False)"

section \<open>Strings\<close>

text \<open>
  \<^verbatim>\<open>str.upper\<close> and \<^verbatim>\<open>str.lower\<close> of a byte string: the twenty-six ASCII letters
  change case, every other byte is kept.
\<close>

definition ascii_lowercase :: string where
  "ascii_lowercase = ''abcdefghijklmnopqrstuvwxyz''"

definition ascii_uppercase :: string where
  "ascii_uppercase = ''ABCDEFGHIJKLMNOPQRSTUVWXYZ''"

definition upper_char :: "char \<Rightarrow> char" where
  "upper_char c = (case map_of (zip ascii_lowercase ascii_uppercase) c of None \<Rightarrow> c | Some u \<Rightarrow> u)"

definition lower_char :: "char \<Rightarrow> char" where
  "lower_char c = (case map_of (zip ascii_uppercase ascii_lowercase) c of None \<Rightarrow> c | Some l \<Rightarrow> l)"

definition upper :: "string \<Rightarrow> string" where
  "upper s = map upper_char s"

definition lower :: "string \<Rightarrow> string" where
  "lower s = map lower_char s"

text \<open>\<^verbatim>\<open>s.replace(a, '.')\<close> for a one-character \<^verbatim>\<open>a\<close>.\<close>

definition replace_char :: "char \<Rightarrow> string \<Rightarrow> string" where
  "replace_char a s = map (\<lambda>c. if c = a then CHR ''.'' else c) s"

section \<open>The fragment of regular expressions the code uses\<close>

text \<open>
  \<^verbatim>\<open>locate\<close> and \<^verbatim>\<open>__contains__\<close> hand the translated pattern to \<^verbatim>\<open>re\<close>. For a
  pattern over letters, digits and other ordinary characters, the expression is a
  sequence of atoms: a dot, which matches every character but the newline, or a literal.
  A pattern holding another metacharacter of \<^verbatim>\<open>re\<close> (the last one listed in
  \<open>re_special\<close> is the backslash) is outside the fragment.
\<close>

datatype re_atom = AnyChar | Lit char

definition re_special :: "char \<Rightarrow> bool" where
  "re_special c = (c \<in> set (''.^$*+?{}[]|()'' @ [CHR 0x5C]))"

definition re_compile :: "string \<Rightarrow> re_atom list option" where
  "re_compile p =
     (if list_ex (\<lambda>c. re_special c \<and> c \<noteq> CHR ''.'') p then None
      else Some (map (\<lambda>c. if c = CHR ''.'' then AnyChar else Lit c) p))"

fun atom_matches :: "re_atom \<Rightarrow> char \<Rightarrow> bool" where
  "atom_matches AnyChar c = (c \<noteq> CHR 0x0A)"
| "atom_matches (Lit a) c = (a = c)"

text \<open>Whether the atoms match a prefix of the text.\<close>

fun match_here :: "re_atom list \<Rightarrow> string \<Rightarrow> bool" where
  "match_here [] cs = True"
| "match_here (a # as) [] = False"
| "match_here (a # as) (c # cs) = (atom_matches a c \<and> match_here as cs)"

text \<open>
  \<^verbatim>\<open>re.finditer('(?=' + pattern + ')', text)\<close>: the lookahead consumes nothing, so the
  scan tries every position from 0 to the length of the text, the end included, and
  yields the start of each position where the pattern matches.
\<close>

definition finditer_lookahead :: "re_atom list \<Rightarrow> string \<Rightarrow> nat list" where
  "finditer_lookahead atoms text =
     filter (\<lambda>i. match_here atoms (drop i text)) [0..<Suc (length text)]"

text \<open>\<^verbatim>\<open>re.search(pattern, text)\<close>, as a truth value.\<close>

definition re_search :: "re_atom list \<Rightarrow> string \<Rightarrow> bool" where
  "re_search atoms text = list_ex (\<lambda>i. match_here atoms (drop i text)) [0..<Suc (length text)]"

text \<open>
  \<^verbatim>\<open>re.search('[^' + re.escape(chars) + ']', text)\<close>, as a truth value. Every character
  of \<^verbatim>\<open>chars\<close> is escaped or alphanumeric, hence a literal member of the class; with no
  character at all the expression is \<^verbatim>\<open>[^]\<close>, which \<^verbatim>\<open>re\<close> refuses to compile.
\<close>

definition re_search_outside :: "string \<Rightarrow> string \<Rightarrow> error + bool" where
  "re_search_outside chars text =
     (if chars = [] then Inl ReError else Inr (list_ex (\<lambda>c. c \<notin> set chars) text))"

section \<open>Sequence\<close>

text \<open>
  An alphabet exposes its symbols as a string. A sequence carries its concrete class
  (\<^verbatim>\<open>type(self)\<close>: the base class or a subclass, known by name), the residues, the
  alphabet, the wildcard character and the name.
\<close>

record alphabet =
  symbols :: string

datatype seq_class = Sequence | Subclass string

record sequence =
  cls :: seq_class
  seq :: string
  alphabet :: alphabet
  any_char :: char
  name :: string

text \<open>
  \<^verbatim>\<open>Sequence.__init__\<close>, with the class being instantiated as first argument. The
  parameters follow the source's order: sequence, alphabet, skip_checks, any_char, name.
\<close>

definition init ::
  "seq_class \<Rightarrow> string \<Rightarrow> alphabet \<Rightarrow> bool \<Rightarrow> char \<Rightarrow> string option \<Rightarrow> error + sequence" where
  "init c sequence alph skip_checks anyc nm =
     (if \<not> skip_checks
      then bind_result
             (re_search_outside (symbols alph @ lower (symbols alph)) (upper sequence))
             (\<lambda>found. if found then Inl AlphabetError
                else Inr \<lparr> cls = c, seq = upper sequence, alphabet = alph, any_char = anyc,
                           name = (case nm of None \<Rightarrow> [] | Some n \<Rightarrow> n) \<rparr>)
      else Inr \<lparr> cls = c, seq = sequence, alphabet = alph, any_char = anyc,
                 name = (case nm of None \<Rightarrow> [] | Some n \<Rightarrow> n) \<rparr>)"

text \<open>\<^verbatim>\<open>Sequence.__str__\<close>.\<close>

definition str :: "sequence \<Rightarrow> string" where
  "str self = seq self"

text \<open>
  \<^verbatim>\<open>Sequence.copy\<close>: the constructor of the same class, with the residues, the alphabet
  and the wildcard, checks skipped; no name is passed.
\<close>

definition copy :: "sequence \<Rightarrow> error + sequence" where
  "copy self = init (cls self) (seq self) (alphabet self) True (any_char self) None"

text \<open>
  \<^verbatim>\<open>Sequence.locate\<close>. The modulo is taken for each start in turn, so with an empty
  sequence the first start raises the division error.
\<close>

definition locate :: "sequence \<Rightarrow> string \<Rightarrow> error + nat list" where
  "locate self pattern =
     (if length pattern > length (seq self) then Inl ValueError
      else case re_compile (replace_char (any_char self) (upper pattern)) of
             None \<Rightarrow> Inl OutsideFragment
           | Some atoms \<Rightarrow>
               (let starts = finditer_lookahead atoms (seq self)
                in if starts \<noteq> [] \<and> length (seq self) = 0 then Inl ZeroDivisionError
                   else Inr (map (\<lambda>i. i mod length (seq self)) starts)))"

text \<open>
  \<^verbatim>\<open>Sequence.__contains__\<close>. Here the wildcard is replaced by \<^verbatim>\<open>re.sub\<close>, which reads
  the wildcard itself as a regular expression: a wildcard that is a metacharacter is
  outside the fragment.
\<close>

definition contains :: "sequence \<Rightarrow> string \<Rightarrow> error + bool" where
  "contains self query =
     (if re_special (any_char self) then Inl OutsideFragment
      else case re_compile (replace_char (any_char self) (upper query)) of
             None \<Rightarrow> Inl OutsideFragment
           | Some atoms \<Rightarrow> Inr (re_search atoms (str self)))"

section \<open>Concatenation\<close>

text \<open>The values an operand of \<^verbatim>\<open>+\<close> or the result of \<^verbatim>\<open>sum\<close> can be, and their types.\<close>

datatype py_value = VNone | VInt int | VStr string | VSeq sequence

datatype py_type = TNone | TInt | TStr | TSeq seq_class

fun type_of :: "py_value \<Rightarrow> py_type" where
  "type_of VNone = TNone"
| "type_of (VInt n) = TInt"
| "type_of (VStr s) = TStr"
| "type_of (VSeq x) = TSeq (cls x)"

text \<open>
  \<^verbatim>\<open>type(self)(other)\<close>, the construction from one argument. For the base class the
  call lacks the required argument \<^verbatim>\<open>alphabet\<close> and raises a type error. The
  constructors of the subclasses are not among the sources: \<^verbatim>\<open>sub\<close>, a parameter,
  gives for each subclass name what its one-argument construction returns or raises.
\<close>

type_synonym subclass_init = "string \<Rightarrow> py_value \<Rightarrow> error + sequence"

definition construct1 :: "subclass_init \<Rightarrow> seq_class \<Rightarrow> py_value \<Rightarrow> error + sequence" where
  "construct1 sub c v = (case c of Sequence \<Rightarrow> Inl TypeError | Subclass n \<Rightarrow> sub n v)"

text \<open>
  The coercion shared by \<^verbatim>\<open>__add__\<close> and \<^verbatim>\<open>__radd__\<close>: when the types differ, one
  construction, whose attribute error becomes a type error; any other exception passes.
\<close>

definition coerce :: "subclass_init \<Rightarrow> sequence \<Rightarrow> py_value \<Rightarrow> error + py_value" where
  "coerce sub self other =
     (if TSeq (cls self) \<noteq> type_of other
      then (case construct1 sub (cls self) other of
              Inl e \<Rightarrow> (if e = AttributeError then Inl TypeError else Inl e)
            | Inr v \<Rightarrow> Inr (VSeq v))
      else Inr other)"

text \<open>\<^verbatim>\<open>other.seq\<close>: only a sequence has the attribute.\<close>

fun get_seq :: "py_value \<Rightarrow> error + string" where
  "get_seq (VSeq x) = Inr (seq x)"
| "get_seq v = Inl AttributeError"

text \<open>\<^verbatim>\<open>Sequence.__add__\<close>.\<close>

definition add :: "subclass_init \<Rightarrow> sequence \<Rightarrow> py_value \<Rightarrow> error + sequence" where
  "add sub self other =
     bind_result (coerce sub self other) (\<lambda>other'.
       bind_result (copy self) (\<lambda>copy'.
         bind_result (get_seq other') (\<lambda>s.
           Inr (copy'\<lparr>seq := seq copy' @ s\<rparr>))))"

text \<open>
  \<^verbatim>\<open>other == 0\<close>: on an integer the comparison of numbers; on a sequence,
  \<^verbatim>\<open>Sequence.__eq__\<close> compares the residues with \<^verbatim>\<open>str(0)\<close>.
\<close>

fun eq_zero :: "py_value \<Rightarrow> bool" where
  "eq_zero (VInt n) = (n = 0)"
| "eq_zero (VSeq x) = (str x = ''0'')"
| "eq_zero v = False"

text \<open>\<^verbatim>\<open>Sequence.__radd__\<close>.\<close>

definition radd :: "subclass_init \<Rightarrow> sequence \<Rightarrow> py_value \<Rightarrow> error + sequence" where
  "radd sub self other =
     (if eq_zero other \<or> other = VNone then Inr self
      else bind_result (coerce sub self other) (\<lambda>other'. add sub self other'))"

text \<open>
  \<^verbatim>\<open>sum(items)\<close> over a list of sequences: the accumulator starts at the integer 0;
  an integer on the left defers to \<^verbatim>\<open>__radd__\<close> of the item, a sequence on the left
  uses its \<^verbatim>\<open>__add__\<close>.
\<close>

definition py_plus :: "subclass_init \<Rightarrow> py_value \<Rightarrow> sequence \<Rightarrow> error + py_value" where
  "py_plus sub acc x =
     (case acc of
        VSeq a \<Rightarrow> bind_result (add sub a (VSeq x)) (\<lambda>r. Inr (VSeq r))
      | _ \<Rightarrow> bind_result (radd sub x acc) (\<lambda>r. Inr (VSeq r)))"

fun sum_from :: "subclass_init \<Rightarrow> py_value \<Rightarrow> sequence list \<Rightarrow> error + py_value" where
  "sum_from sub acc [] = Inr acc"
| "sum_from sub acc (x # xs) = bind_result (py_plus sub acc x) (\<lambda>acc'. sum_from sub acc' xs)"

definition py_sum :: "subclass_init \<Rightarrow> sequence list \<Rightarrow> error + py_value" where
  "py_sum sub xs = sum_from sub (VInt 0) xs"

section \<open>Repetition\<close>

text \<open>
  The multiplier is a Python number: an integer, or a finite float, kept as the
  rational it denotes (only whether it is integral is read).
\<close>

datatype py_number = PyInt int | PyFloat rat

text \<open>\<^verbatim>\<open>int(n)\<close> truncates towards zero.\<close>

fun py_int :: "py_number \<Rightarrow> int" where
  "py_int (PyInt i) = i"
| "py_int (PyFloat q) = (if 0 \<le> q then \<lfloor>q\<rfloor> else \<lceil>q\<rceil>)"

text \<open>\<^verbatim>\<open>n != int(n)\<close>.\<close>

fun differs_from_int :: "py_number \<Rightarrow> bool" where
  "differs_from_int (PyInt i) = (i \<noteq> py_int (PyInt i))"
| "differs_from_int (PyFloat q) = (q \<noteq> of_int (py_int (PyFloat q)))"

text \<open>\<^verbatim>\<open>bin(n)\<close> of an integer: a sign, the prefix \<^verbatim>\<open>0b\<close>, the binary digits.\<close>

fun bin_digits :: "nat \<Rightarrow> string" where
  "bin_digits n =
     (if n < 2 then [if n = 0 then CHR ''0'' else CHR ''1'']
      else bin_digits (n div 2) @ [if n mod 2 = 0 then CHR ''0'' else CHR ''1''])"

declare bin_digits.simps [simp del]

definition bin :: "int \<Rightarrow> string" where
  "bin n = (if n < 0 then ''-0b'' @ bin_digits (nat (- n)) else ''0b'' @ bin_digits (nat n))"

text \<open>\<^verbatim>\<open>int(x)\<close> of a one-character string: a decimal digit, or a value error.\<close>

definition int_of_char :: "char \<Rightarrow> error + nat" where
  "int_of_char c =
     (case map_of (zip ''0123456789'' [0, 1, 2, 3, 4, 5, 6, 7, 8, 9]) c of
        None \<Rightarrow> Inl ValueError
      | Some d \<Rightarrow> Inr d)"

text \<open>A list comprehension over a function that may raise: the first error ends it.\<close>

fun map_result :: "('a \<Rightarrow> error + 'b) \<Rightarrow> 'a list \<Rightarrow> error + 'b list" where
  "map_result f [] = Inr []"
| "map_result f (x # xs) =
     bind_result (f x) (\<lambda>y. bind_result (map_result f xs) (\<lambda>ys. Inr (y # ys)))"

text \<open>
  The loop of \<^verbatim>\<open>_decompose\<close>: \<^verbatim>\<open>binary[-counter]\<close> is the digit at index
  \<^verbatim>\<open>len(binary) - counter\<close>; \<^verbatim>\<open>new_string += new_string\<close> is \<^verbatim>\<open>__add__\<close>. The
  list holds what the generator yields, in order.
\<close>

function decompose_loop ::
  "subclass_init \<Rightarrow> nat list \<Rightarrow> sequence \<Rightarrow> nat \<Rightarrow> error + sequence list" where
  "decompose_loop sub binary new_string counter =
     (if counter \<le> length binary
      then bind_result (add sub new_string (VSeq new_string)) (\<lambda>doubled.
             bind_result (decompose_loop sub binary doubled (counter + 1)) (\<lambda>rest.
               Inr ((if binary ! (length binary - counter) \<noteq> 0 then [new_string] else [])
                    @ rest)))
      else Inr [])"
  by pat_completeness auto
termination
  by (relation "measure (\<lambda>(sub, binary, new_string, counter). Suc (length binary) - counter)") auto

declare decompose_loop.simps [simp del]

text \<open>
  \<^verbatim>\<open>_decompose(string, n)\<close>, run to its end as the list comprehension of
  \<^verbatim>\<open>__mul__\<close> does. \<^verbatim>\<open>bin\<close> refuses a float with a type error.
\<close>

definition decompose :: "subclass_init \<Rightarrow> sequence \<Rightarrow> py_number \<Rightarrow> error + sequence list" where
  "decompose sub string n =
     (case n of
        PyFloat q \<Rightarrow> Inl TypeError
      | PyInt i \<Rightarrow>
          bind_result (map_result int_of_char (drop 2 (bin i))) (\<lambda>binary.
            decompose_loop sub binary string 1))"

text \<open>\<^verbatim>\<open>Sequence.__mul__\<close>.\<close>

definition mul :: "subclass_init \<Rightarrow> sequence \<Rightarrow> py_number \<Rightarrow> error + py_value" where
  "mul sub self n =
     (if differs_from_int n then Inl TypeError
      else bind_result (decompose sub self n) (\<lambda>xs. py_sum sub xs))"

section \<open>Annealing engine\<close>








section \<open>Notions used to state the properties\<close>

text \<open>A pattern all of whose characters are dots or ordinary characters.\<close>

definition in_fragment :: "string \<Rightarrow> bool" where
  "in_fragment p = list_all (\<lambda>c. c = CHR ''.'' \<or> \<not> re_special c) p"

text \<open>
  A pattern character against a residue: the wildcard of the sequence and the dot stand
  for any residue but a newline, any other character for itself.
\<close>

definition symbol_matches :: "char \<Rightarrow> char \<Rightarrow> char \<Rightarrow> bool" where
  "symbol_matches anyc p c = (if p = anyc \<or> p = CHR ''.'' then c \<noteq> CHR 0x0A else p = c)"

text \<open>
  The uppercased pattern lies on the residues from index \<open>i\<close> on, inside the sequence.
\<close>

definition matches_at :: "sequence \<Rightarrow> string \<Rightarrow> nat \<Rightarrow> bool" where
  "matches_at self pattern i =
     (i + length pattern \<le> length (seq self) \<and>
      list_all (\<lambda>j. symbol_matches (any_char self) (upper pattern ! j) (seq self ! (i + j)))
        [0..<length pattern])"

text \<open>
  The reading of the specification, for comparison with \<open>locate\<close>: the sequence is a
  ring, residue \<open>i + j\<close> is taken modulo the length, and every index of the ring where
  the pattern lies is listed in ascending order.
\<close>

definition ring_matches_at :: "sequence \<Rightarrow> string \<Rightarrow> nat \<Rightarrow> bool" where
  "ring_matches_at self pattern i =
     list_all (\<lambda>j. symbol_matches (any_char self) (upper pattern ! j)
                      (seq self ! ((i + j) mod length (seq self))))
       [0..<length pattern]"

definition locate_ring :: "sequence \<Rightarrow> string \<Rightarrow> nat list" where
  "locate_ring self pattern = filter (ring_matches_at self pattern) [0..<length (seq self)]"

text \<open>
  The reading of the specification of the validity test, for comparison with \<open>init\<close>:
  every character of the raw string is a symbol of the alphabet or the lowercase form
  of one.
\<close>

definition raw_chars_valid :: "string \<Rightarrow> alphabet \<Rightarrow> bool" where
  "raw_chars_valid s a = list_all (\<lambda>c. c \<in> set (symbols a @ lower (symbols a))) s"

text \<open>Same class, alphabet and wildcard.\<close>

definition same_kind :: "sequence \<Rightarrow> sequence \<Rightarrow> bool" where
  "same_kind y x \<longleftrightarrow> cls y = cls x \<and> alphabet y = alphabet x \<and> any_char y = any_char x"

text \<open>The number a list of binary digits denotes, lowest digit first.\<close>

fun bits_value :: "nat list \<Rightarrow> nat" where
  "bits_value [] = 0"
| "bits_value (b # bs) = (if b \<noteq> 0 then 1 else 0) + 2 * bits_value bs"

section \<open>Concrete values\<close>

definition dna_alphabet :: alphabet where
  "dna_alphabet = \<lparr> symbols = ''ATGCN'' \<rparr>"

definition lowercase_alphabet :: alphabet where
  "lowercase_alphabet = \<lparr> symbols = ''a'' \<rparr>"

definition example_seq :: sequence where
  "example_seq = \<lparr> cls = Sequence, seq = ''ATGC'', alphabet = dna_alphabet,
                   any_char = CHR ''N'', name = ''tpl'' \<rparr>"

definition overlap_seq :: sequence where
  "overlap_seq = \<lparr> cls = Sequence, seq = ''ATATA'', alphabet = dna_alphabet,
                   any_char = CHR ''N'', name = [] \<rparr>"

definition empty_seq :: sequence where
  "empty_seq = \<lparr> cls = Sequence, seq = [], alphabet = dna_alphabet,
                 any_char = CHR ''N'', name = [] \<rparr>"

definition example_dna :: sequence where
  "example_dna = \<lparr> cls = Subclass ''DNA'', seq = ''ATGC'', alphabet = dna_alphabet,
                   any_char = CHR ''N'', name = ''tpl'' \<rparr>"

text \<open>
  A one-argument constructor for a subclass, as an instance of the parameter: a string
  is taken as the residues without any check, anything else has no residues.
\<close>

definition example_sub :: subclass_init where
  "example_sub n v =
     (case v of
        VStr s \<Rightarrow> Inr \<lparr> cls = Subclass n, seq = s, alphabet = dna_alphabet,
                        any_char = CHR ''N'', name = [] \<rparr>
      | _ \<Rightarrow> Inl AttributeError)"



text \<open>
  Another instance of the parameter: a one-argument constructor that hands a string to
  \<^verbatim>\<open>Sequence.__init__\<close> with the alphabet of the subclass and the checks on, so that a
  string with a foreign character raises the alphabet error.
\<close>

definition strict_sub :: subclass_init where
  "strict_sub n v =
     (case v of
        VStr s \<Rightarrow> init (Subclass n) s dna_alphabet False (CHR ''N'') None
      | _ \<Rightarrow> Inl AttributeError)"

section \<open>Properties of Feature\<close>

lemma feature_eq_iff:
  "feature_eq f g \<longleftrightarrow>
     feature_name f = feature_name g \<and> feature_type f = feature_type g \<and>
     start f = start g \<and> stop f = stop g \<and> strand f = strand g \<and> gaps f = gaps g"
  by (simp add: feature_eq_def)

text \<open>
  Claim C8. Feature equality is a structural comparison of values: two features are
  equal exactly when name, feature type, start, stop, strand and gaps agree; the
  qualifiers, the gene and the locus tag of either side do not influence it; it is
  reflexive and symmetric, and inequality is its negation.
\<close>

theorem feature_eq_structural:
  "(feature_eq f g \<longleftrightarrow>
      feature_name f = feature_name g \<and> feature_type f = feature_type g \<and>
      start f = start g \<and> stop f = stop g \<and> strand f = strand g \<and> gaps f = gaps g)
   \<and> feature_eq (f\<lparr>qualifiers := q, gene := gn, locus_tag := lt\<rparr>) g = feature_eq f g
   \<and> feature_eq f (g\<lparr>qualifiers := q', gene := gn', locus_tag := lt'\<rparr>) = feature_eq f g
   \<and> feature_eq f f
   \<and> feature_eq f g = feature_eq g f
   \<and> feature_ne f g = (\<not> feature_eq f g)"
  by (auto simp add: feature_eq_iff feature_ne_def)

lemma feature_copy_result:
  assumes "feature_type f \<in> set featurenames"
  shows "feature_copy featurenames f = Inr (f\<lparr>modified := False, gaps := []\<rparr>)"
  using assms by (simp add: feature_copy_def feature_init_def)

text \<open>
  Claim C10. For a feature whose type is a recognised one (the invariant the
  constructor establishes), \<^verbatim>\<open>copy\<close> returns a feature with no gaps and with the
  modified flag cleared, whatever the gaps and the flag of the original were; so a
  feature with gaps is not equal to its own copy.
\<close>

theorem feature_copy_drops_gaps:
  assumes "feature_type f \<in> set featurenames"
  shows "\<exists>g. feature_copy featurenames f = Inr g \<and> gaps g = [] \<and> \<not> modified g \<and>
             (gaps f \<noteq> [] \<longrightarrow> \<not> feature_eq g f)"
  using assms by (auto simp add: feature_copy_result feature_eq_iff)

theorem feature_copy_drops_gaps_witness:
  "\<exists>g. feature_copy [''misc_feature'', ''CDS'']
          \<lparr> feature_name = ''galK'', start = 3, stop = 9, modified = True, gene = ''g'',
            locus_tag = ''b0757'', qualifiers = [], strand = 0, gaps = [(4, 5)],
            feature_type = ''CDS'' \<rparr> = Inr g
       \<and> gaps g = [] \<and> \<not> modified g
       \<and> \<not> feature_eq g
            \<lparr> feature_name = ''galK'', start = 3, stop = 9, modified = True, gene = ''g'',
              locus_tag = ''b0757'', qualifiers = [], strand = 0, gaps = [(4, 5)],
              feature_type = ''CDS'' \<rparr>"
  using feature_copy_drops_gaps
    [of "\<lparr> feature_name = ''galK'', start = 3, stop = 9, modified = True, gene = ''g'',
          locus_tag = ''b0757'', qualifiers = [], strand = 0, gaps = [(4, 5)],
          feature_type = ''CDS'' \<rparr>" "[''misc_feature'', ''CDS'']"]
  by simp


section \<open>Properties of construction and copy\<close>

lemma bind_result_simps [simp]:
  "bind_result (Inl e) f = Inl e"
  "bind_result (Inr x) f = f x"
  by (simp_all add: bind_result_def)

lemma copy_result: "copy x = Inr (x\<lparr>name := []\<rparr>)"
  by (cases x) (simp add: copy_def init_def)

lemma init_checked:
  assumes "symbols a \<noteq> []"
  shows "init c s a False anyc nm =
           (if \<forall>ch \<in> set (upper s). ch \<in> set (symbols a) \<union> set (lower (symbols a))
            then Inr \<lparr> cls = c, seq = upper s, alphabet = a, any_char = anyc,
                       name = (case nm of None \<Rightarrow> [] | Some n \<Rightarrow> n) \<rparr>
            else Inl AlphabetError)"
  using assms by (auto simp add: init_def re_search_outside_def list_ex_iff)

text \<open>
  Claim C4, as stated, fails: with the alphabet whose only symbol is the lowercase
  \<^verbatim>\<open>a\<close>, every character of the raw string \<^verbatim>\<open>a\<close> is a symbol, yet the
  construction raises the alphabet error, because the test reads the uppercased string.
\<close>

theorem init_lowercase_symbol_counterexample:
  "raw_chars_valid ''a'' lowercase_alphabet
   \<and> init Sequence ''a'' lowercase_alphabet False (CHR ''N'') None = Inl AlphabetError"
  by (simp add: raw_chars_valid_def lowercase_alphabet_def init_def re_search_outside_def
      upper_def upper_char_def lower_def lower_char_def ascii_lowercase_def ascii_uppercase_def)

text \<open>
  Claim C4, amended. For an alphabet with at least one symbol, a checked construction
  succeeds exactly when every character of the uppercased string is a symbol of the
  alphabet or the lowercase form of one; when it does not succeed it raises the alphabet
  error; when it succeeds the string of the result is the uppercased input.
\<close>

theorem init_validates_uppercased:
  assumes "symbols a \<noteq> []"
  shows "((\<exists>x. init c s a False anyc nm = Inr x) \<longleftrightarrow>
            (\<forall>ch \<in> set (upper s). ch \<in> set (symbols a) \<union> set (lower (symbols a))))
       \<and> ((\<nexists>x. init c s a False anyc nm = Inr x) \<longrightarrow>
            init c s a False anyc nm = Inl AlphabetError)
       \<and> (\<forall>x. init c s a False anyc nm = Inr x \<longrightarrow> str x = upper s)"
  using assms by (simp add: init_checked str_def)

theorem init_validates_uppercased_witness:
  "symbols dna_alphabet \<noteq> []
   \<and> (\<exists>x. init Sequence ''atgc'' dna_alphabet False (CHR ''N'') None = Inr x
          \<and> str x = ''ATGC'')"
proof -
  have ne: "symbols dna_alphabet \<noteq> []"
    by (simp add: dna_alphabet_def)
  have up: "upper ''atgc'' = ''ATGC''"
    by (simp add: upper_def upper_char_def ascii_lowercase_def ascii_uppercase_def)
  have ok: "\<forall>ch \<in> set (upper ''atgc'').
              ch \<in> set (symbols dna_alphabet) \<union> set (lower (symbols dna_alphabet))"
    unfolding up by (simp add: dna_alphabet_def)
  from init_validates_uppercased [OF ne, of Sequence "''atgc''" "CHR ''N''" None] ok
  have "\<exists>x. init Sequence ''atgc'' dna_alphabet False (CHR ''N'') None = Inr x
          \<and> str x = upper ''atgc''"
    by blast
  with ne up show ?thesis by simp
qed

text \<open>Case conversion, letter by letter.\<close>

lemma upper_char_other: "c \<notin> set ascii_lowercase \<Longrightarrow> upper_char c = c"
  by (simp add: upper_char_def ascii_lowercase_def ascii_uppercase_def)

lemma lower_char_other: "c \<notin> set ascii_uppercase \<Longrightarrow> lower_char c = c"
  by (simp add: lower_char_def ascii_lowercase_def ascii_uppercase_def)

lemma cases_disjoint: "c \<in> set ascii_uppercase \<Longrightarrow> c \<notin> set ascii_lowercase"
  by (auto simp add: ascii_lowercase_def ascii_uppercase_def)



lemma upper_char_letter:
  assumes "c \<in> set ascii_lowercase"
  shows "upper_char c \<in> set ascii_uppercase \<and> lower_char (upper_char c) = c"
proof -
  have "list_all (\<lambda>c. upper_char c \<in> set ascii_uppercase \<and> lower_char (upper_char c) = c)
          ascii_lowercase"
    by code_simp
  with assms show ?thesis by (simp add: list_all_iff)
qed

lemma lower_char_letter:
  assumes "c \<in> set ascii_uppercase"
  shows "lower_char c \<in> set ascii_lowercase \<and> upper_char (lower_char c) = c"
proof -
  have "list_all (\<lambda>c. lower_char c \<in> set ascii_lowercase \<and> upper_char (lower_char c) = c)
          ascii_uppercase"
    by code_simp
  with assms show ?thesis by (simp add: list_all_iff)
qed

lemma upper_char_valid_iff:
  assumes "\<forall>c \<in> set syms. c \<notin> set ascii_lowercase"
  shows "upper_char c \<in> set syms \<union> set (lower syms) \<longleftrightarrow> c \<in> set syms \<union> set (lower syms)"
proof
  assume up: "upper_char c \<in> set syms \<union> set (lower syms)"
  show "c \<in> set syms \<union> set (lower syms)"
  proof (cases "c \<in> set ascii_lowercase")
    case False
    with up show ?thesis by (simp add: upper_char_other)
  next
    case True
    from upper_char_letter [OF True]
    have U: "upper_char c \<in> set ascii_uppercase" and undo: "lower_char (upper_char c) = c"
      by simp_all
    have "upper_char c \<in> set syms"
    proof (rule ccontr)
      assume no: "upper_char c \<notin> set syms"
      with up obtain d where d: "d \<in> set syms" "upper_char c = lower_char d"
        by (auto simp add: lower_def)
      show False
      proof (cases "d \<in> set ascii_uppercase")
        case True
        from lower_char_letter [OF this] d(2) have "upper_char c \<in> set ascii_lowercase" by simp
        with cases_disjoint [OF U] show False by simp
      next
        case False
        with d no show False by (simp add: lower_char_other)
      qed
    qed
    then have "lower_char (upper_char c) \<in> set (lower syms)"
      by (simp add: lower_def)
    with undo show ?thesis by simp
  qed
next
  assume c: "c \<in> set syms \<union> set (lower syms)"
  have direct: "upper_char d \<in> set syms" if "d \<in> set syms" for d
    using that assms by (simp add: upper_char_other)
  from c show "upper_char c \<in> set syms \<union> set (lower syms)"
  proof
    assume "c \<in> set syms"
    then show ?thesis using direct by simp
  next
    assume "c \<in> set (lower syms)"
    then obtain d where d: "d \<in> set syms" "c = lower_char d"
      by (auto simp add: lower_def)
    show ?thesis
    proof (cases "d \<in> set ascii_uppercase")
      case True
      from lower_char_letter [OF this] d show ?thesis by simp
    next
      case False
      with d direct show ?thesis by (simp add: lower_char_other)
    qed
  qed
qed

text \<open>
  For an alphabet without lowercase letters, as the alphabets of residues are, the test
  on the uppercased string and the test of claim C4 on the raw string agree.
\<close>

lemma init_uppercase_alphabet:
  assumes "symbols a \<noteq> []" and "\<forall>c \<in> set (symbols a). c \<notin> set ascii_lowercase"
  shows "(\<exists>x. init c s a False anyc nm = Inr x) \<longleftrightarrow> raw_chars_valid s a"
  using assms(1) upper_char_valid_iff [OF assms(2)]
  by (simp add: init_checked raw_chars_valid_def list_all_iff upper_def)

text \<open>
  Claim C5: the copy has the class, the residues, the alphabet and the wildcard of the
  original, and is built without any check; but its name is the empty string, whatever
  the name of the original was. The claim that the name is preserved fails on every
  sequence with a name.
\<close>

theorem copy_resets_name:
  "\<exists>y. copy x = Inr y \<and> cls y = cls x \<and> seq y = seq x \<and> alphabet y = alphabet x
       \<and> any_char y = any_char x \<and> name y = []"
  by (simp add: copy_result)

lemma copy_example_seq:
  "copy example_seq = Inr (example_seq\<lparr>name := []\<rparr>) \<and> name example_seq = ''tpl''"
  by (simp add: copy_result example_seq_def)

section \<open>Properties of concatenation\<close>

lemma add_same_class:
  assumes "cls y = cls x"
  shows "add sub x (VSeq y) = Inr (x\<lparr>seq := seq x @ seq y, name := []\<rparr>)"
  using assms by (cases x) (simp add: add_def coerce_def copy_result)

lemma add_other_failure:
  assumes "type_of y \<noteq> TSeq (cls x)" and "construct1 sub (cls x) y = Inl e"
  shows "add sub x y = Inl (if e = AttributeError then TypeError else e)"
  using assms by (auto simp add: add_def coerce_def)

text \<open>
  Claim C6, as stated, fails: the operand \<^verbatim>\<open>xyz\<close> is a string, the sequence is of a
  subclass whose constructor validates, the coercion is impossible, and the error that
  leaves \<^verbatim>\<open>+\<close> is the alphabet error of the constructor, not a type error.
\<close>

theorem add_alphabet_error_counterexample:
  "type_of (VStr ''xyz'') \<noteq> TSeq (cls example_dna)
   \<and> construct1 strict_sub (cls example_dna) (VStr ''xyz'') = Inl AlphabetError
   \<and> add strict_sub example_dna (VStr ''xyz'') = Inl AlphabetError"
proof -
  have up: "upper ''xyz'' = ''XYZ''"
    by (simp add: upper_def upper_char_def ascii_lowercase_def ascii_uppercase_def)
  have built: "construct1 strict_sub (cls example_dna) (VStr ''xyz'') = Inl AlphabetError"
    by (simp add: construct1_def strict_sub_def example_dna_def init_def re_search_outside_def
        up dna_alphabet_def lower_def lower_char_def ascii_lowercase_def ascii_uppercase_def)
  have differs: "type_of (VStr ''xyz'') \<noteq> TSeq (cls example_dna)"
    by simp
  from add_other_failure [OF differs built] differs built show ?thesis
    by simp
qed

text \<open>
  Claim C6, amended. When the operand is of another type than the sequence, \<^verbatim>\<open>+\<close>
  depends on the subclass constructors only through the one construction of the operand
  in the class of the sequence. When that construction raises the attribute error (the
  operand has no residues) a type error is raised; any other exception it raises leaves
  \<^verbatim>\<open>+\<close> unchanged, and in the base class, whose constructor cannot take a single
  argument, that is always a type error. When the construction succeeds, the result has
  the residues of the sequence followed by those of the coerced operand, whatever they
  are, and the class, alphabet and wildcard of the sequence.
\<close>

theorem add_coerces_once:
  assumes "type_of y \<noteq> TSeq (cls x)"
  shows "(\<forall>sub'. construct1 sub' (cls x) y = construct1 sub (cls x) y \<longrightarrow>
            add sub' x y = add sub x y)
       \<and> (construct1 sub (cls x) y = Inl AttributeError \<longrightarrow> add sub x y = Inl TypeError)
       \<and> (\<forall>e. construct1 sub (cls x) y = Inl e \<and> e \<noteq> AttributeError \<longrightarrow>
            add sub x y = Inl e)
       \<and> (cls x = Sequence \<longrightarrow> add sub x y = Inl TypeError)
       \<and> (\<forall>v. construct1 sub (cls x) y = Inr v \<longrightarrow>
            (\<exists>r. add sub x y = Inr r \<and> seq r = seq x @ seq v \<and> cls r = cls x
                 \<and> alphabet r = alphabet x \<and> any_char r = any_char x))"
  using assms by (auto simp add: add_def coerce_def copy_result construct1_def)

theorem add_coerces_once_witness:
  "type_of (VStr ''xx'') \<noteq> TSeq (cls example_dna)
   \<and> construct1 example_sub (cls example_dna) (VStr ''xx'')
       = Inr \<lparr> cls = Subclass ''DNA'', seq = ''xx'', alphabet = dna_alphabet,
               any_char = CHR ''N'', name = [] \<rparr>
   \<and> (\<exists>r. add example_sub example_dna (VStr ''xx'') = Inr r \<and> seq r = ''ATGCxx''
          \<and> cls r = Subclass ''DNA'' \<and> alphabet r = dna_alphabet \<and> any_char r = CHR ''N'')"
proof -
  let ?v = "\<lparr> cls = Subclass ''DNA'', seq = ''xx'', alphabet = dna_alphabet,
              any_char = CHR ''N'', name = [] \<rparr>"
  have differs: "type_of (VStr ''xx'') \<noteq> TSeq (cls example_dna)"
    by simp
  have built: "construct1 example_sub (cls example_dna) (VStr ''xx'') = Inr ?v"
    by (simp add: construct1_def example_sub_def example_dna_def)
  from add_coerces_once [OF differs, of example_sub] built
  have "\<exists>r. add example_sub example_dna (VStr ''xx'') = Inr r
          \<and> seq r = seq example_dna @ seq ?v \<and> cls r = cls example_dna
          \<and> alphabet r = alphabet example_dna \<and> any_char r = any_char example_dna"
    by blast
  then have "\<exists>r. add example_sub example_dna (VStr ''xx'') = Inr r \<and> seq r = ''ATGCxx''
          \<and> cls r = Subclass ''DNA'' \<and> alphabet r = dna_alphabet \<and> any_char r = CHR ''N''"
    by (simp add: example_dna_def)
  with differs built show ?thesis by blast
qed

section \<open>Properties of repetition\<close>

lemma bin_digits_small:
  "bin_digits 0 = ''0''" "bin_digits (Suc 0) = ''1''"
  by (subst bin_digits.simps, simp)+

lemma concat_replicate_double:
  "concat (replicate k (s @ s)) = concat (replicate (2 * k) s)"
  by (induction k) simp_all

text \<open>
  What the loop yields from \<open>counter\<close> on: sequences of the kind of the running one
  whose residues, put together, repeat it as many times as the remaining digits denote.
\<close>

lemma decompose_loop_value:
  assumes "1 \<le> counter"
  shows "\<exists>ys. decompose_loop sub binary new_string counter = Inr ys
            \<and> concat (map seq ys)
                = concat (replicate (bits_value (drop (counter - 1) (rev binary))) (seq new_string))
            \<and> (ys = [] \<longleftrightarrow> bits_value (drop (counter - 1) (rev binary)) = 0)
            \<and> (\<forall>y \<in> set ys. same_kind y new_string)"
  using assms
proof (induction sub binary new_string counter rule: decompose_loop.induct)
  case (1 sub binary new_string counter)
  show ?case
  proof (cases "counter \<le> length binary")
    case False
    then show ?thesis by (subst decompose_loop.simps) simp
  next
    case True
    let ?d = "new_string\<lparr>seq := seq new_string @ seq new_string, name := []\<rparr>"
    have dbl: "add sub new_string (VSeq new_string) = Inr ?d"
      by (simp add: add_same_class)
    have "1 \<le> counter + 1" by simp
    from "1.IH" [OF True this, of ?d] obtain rest where
      rest: "decompose_loop sub binary ?d (counter + 1) = Inr rest"
      and cat: "concat (map seq rest)
                 = concat (replicate (bits_value (drop counter (rev binary))) (seq ?d))"
      and emp: "rest = [] \<longleftrightarrow> bits_value (drop counter (rev binary)) = 0"
      and kind: "\<forall>y \<in> set rest. same_kind y ?d"
      by auto
    from True "1.prems" have lt: "counter - 1 < length (rev binary)" by simp
    have split: "drop (counter - 1) (rev binary)
                   = binary ! (length binary - counter) # drop counter (rev binary)"
      using Cons_nth_drop_Suc [OF lt] "1.prems" True
      by (simp add: rev_nth)
    have unfold: "decompose_loop sub binary new_string counter
          = Inr ((if binary ! (length binary - counter) \<noteq> 0 then [new_string] else []) @ rest)"
      using True dbl rest by (subst decompose_loop.simps) simp
    show ?thesis
      unfolding unfold split
      using cat emp kind
      by (auto simp add: concat_replicate_double same_kind_def)
  qed
qed

lemma sum_from_seq:
  assumes "\<forall>y \<in> set ys. same_kind y a"
  shows "\<exists>r. sum_from sub (VSeq a) ys = Inr (VSeq r)
            \<and> seq r = seq a @ concat (map seq ys) \<and> same_kind r a"
  using assms
proof (induction ys arbitrary: a)
  case Nil
  then show ?case by (simp add: same_kind_def)
next
  case (Cons y ys)
  let ?a = "a\<lparr>seq := seq a @ seq y, name := []\<rparr>"
  from Cons.prems have step: "py_plus sub (VSeq a) y = Inr (VSeq ?a)"
    by (simp add: py_plus_def add_same_class same_kind_def)
  from Cons.prems have "\<forall>z \<in> set ys. same_kind z ?a"
    by (simp add: same_kind_def)
  from Cons.IH [OF this] obtain r where
    "sum_from sub (VSeq ?a) ys = Inr (VSeq r)"
    "seq r = seq ?a @ concat (map seq ys)" "same_kind r ?a"
    by blast
  with step show ?case by (simp add: same_kind_def)
qed

lemma py_sum_seq:
  assumes "ys \<noteq> []" and "\<forall>y \<in> set ys. same_kind y x"
  shows "\<exists>r. py_sum sub ys = Inr (VSeq r) \<and> seq r = concat (map seq ys) \<and> same_kind r x"
proof -
  from assms(1) obtain y rest where ys: "ys = y # rest" by (cases ys) auto
  have first: "py_plus sub (VInt 0) y = Inr (VSeq y)"
    by (simp add: py_plus_def radd_def)
  from assms(2) ys have "\<forall>z \<in> set rest. same_kind z y" and yx: "same_kind y x"
    by (simp_all add: same_kind_def)
  from sum_from_seq [OF this(1)] obtain r where
    "sum_from sub (VSeq y) rest = Inr (VSeq r)" "seq r = seq y @ concat (map seq rest)"
    "same_kind r y"
    by blast
  with first ys yx show ?thesis by (simp add: py_sum_def same_kind_def)
qed

lemma map_result_append:
  "map_result f (xs @ [x]) =
     bind_result (map_result f xs) (\<lambda>ys. bind_result (f x) (\<lambda>y. Inr (ys @ [y])))"
  by (induction xs) (simp_all add: bind_result_def split: sum.splits)

lemma bin_digits_value:
  "\<exists>ds. map_result int_of_char (bin_digits n) = Inr ds \<and> bits_value (rev ds) = n"
proof (induction n rule: bin_digits.induct)
  case (1 n)
  show ?case
  proof (cases "n < 2")
    case True
    then have "n = 0 \<or> n = Suc 0" by auto
    then show ?thesis by (auto simp add: int_of_char_def bin_digits_small)
  next
    case False
    from "1.IH" [OF False] obtain ds where
      ds: "map_result int_of_char (bin_digits (n div 2)) = Inr ds" "bits_value (rev ds) = n div 2"
      by blast
    have unfold: "bin_digits n = bin_digits (n div 2) @ [if n mod 2 = 0 then CHR ''0'' else CHR ''1'']"
      using False by (subst bin_digits.simps) simp
    have arith: "(if n mod 2 = 0 then 0 else 1) + 2 * (n div 2) = n"
      by presburger
    show ?thesis
      unfolding unfold map_result_append
      using ds arith by (cases "n mod 2 = 0") (simp_all add: int_of_char_def)
  qed
qed

text \<open>
  For a positive integer the product is the sequence repeated that many times, of the
  same class, alphabet and wildcard: the part of claim C2 that the code fulfils.
\<close>

lemma mul_positive:
  assumes "0 < i"
  shows "\<exists>r. mul sub x (PyInt i) = Inr (VSeq r)
            \<and> seq r = concat (replicate (nat i) (seq x)) \<and> same_kind r x"
proof -
  obtain ds where ds: "map_result int_of_char (bin_digits (nat i)) = Inr ds"
    and val: "bits_value (rev ds) = nat i"
    using bin_digits_value by blast
  have bin: "drop 2 (bin i) = bin_digits (nat i)"
    using assms by (simp add: bin_def)
  obtain ys where ys: "decompose_loop sub ds x 1 = Inr ys"
    and cat: "concat (map seq ys) = concat (replicate (nat i) (seq x))"
    and emp: "ys = [] \<longleftrightarrow> nat i = 0"
    and kind: "\<forall>y \<in> set ys. same_kind y x"
    using decompose_loop_value [of 1 sub ds x] val by auto
  from emp assms have "ys \<noteq> []" by simp
  from py_sum_seq [OF this kind] obtain r where
    "py_sum sub ys = Inr (VSeq r)" "seq r = concat (map seq ys)" "same_kind r x"
    by blast
  with ds ys cat bin show ?thesis
    by (simp add: mul_def decompose_def)
qed

text \<open>
  Claim C2 at the multiplier 0: the digits of \<^verbatim>\<open>bin(0)\<close> are the single digit 0, the
  generator yields nothing, and \<^verbatim>\<open>sum\<close> of the empty list is the integer 0. The
  product is that integer, not an empty sequence.
\<close>

theorem mul_zero_is_integer: "mul sub x (PyInt 0) = Inr (VInt 0)"
proof -
  have digits: "map_result int_of_char (drop 2 (bin 0)) = Inr [0]"
    by (simp add: bin_def bin_digits_small int_of_char_def)
  have past: "decompose_loop sub [0] y (Suc (Suc 0)) = Inr []" for y
    by (subst decompose_loop.simps) simp
  have none: "decompose_loop sub [0] x (Suc 0) = Inr []"
    by (subst decompose_loop.simps) (simp add: add_same_class past)
  show ?thesis
    by (simp add: mul_def decompose_def digits none py_sum_def)
qed

text \<open>A float multiplier raises the type error: the part of claim C3 the code fulfils.\<close>

lemma mul_float: "mul sub x (PyFloat q) = Inl TypeError"
  by (simp add: mul_def decompose_def)

lemma mul_negative:
  assumes "i < 0"
  shows "mul sub x (PyInt i) = Inl ValueError"
  using assms by (simp add: mul_def decompose_def bin_def int_of_char_def)

text \<open>
  Claim C3 at the multiplier -1: \<^verbatim>\<open>bin(-1)\<close> is \<^verbatim>\<open>-0b1\<close>, its tail from index 2 is
  \<^verbatim>\<open>b1\<close>, and \<^verbatim>\<open>int('b')\<close> raises a value error, which leaves \<^verbatim>\<open>__mul__\<close>. No
  result is returned, but the error is not a type error.
\<close>

theorem mul_minus_one_value_error: "mul sub x (PyInt (- 1)) = Inl ValueError"
  by (simp add: mul_def decompose_def bin_def int_of_char_def)

section \<open>Properties of locate and contains\<close>

lemma match_here_iff:
  "match_here atoms cs \<longleftrightarrow>
     length atoms \<le> length cs \<and> (\<forall>j < length atoms. atom_matches (atoms ! j) (cs ! j))"
proof (induction atoms cs rule: match_here.induct)
  case (1 cs)
  then show ?case by simp
next
  case (2 a as)
  then show ?case by simp
next
  case (3 a as c cs)
  then show ?case by (auto simp add: less_Suc_eq_0_disj)
qed

lemma re_compile_in_fragment:
  assumes "in_fragment p"
  shows "re_compile p = Some (map (\<lambda>c. if c = CHR ''.'' then AnyChar else Lit c) p)"
  using assms by (auto simp add: re_compile_def in_fragment_def list_ex_iff list_all_iff)

lemma atom_of_translated:
  "atom_matches (if (if p = anyc then CHR ''.'' else p) = CHR ''.'' then AnyChar
                 else Lit (if p = anyc then CHR ''.'' else p)) c
     = symbol_matches anyc p c"
  by (simp add: symbol_matches_def)

lemma match_here_translated:
  assumes "i \<le> length (seq self)"
  shows "match_here (map (\<lambda>c. if c = CHR ''.'' then AnyChar else Lit c)
                 (replace_char (any_char self) (upper pattern))) (drop i (seq self))
     = matches_at self pattern i"
proof -
  have len: "length (upper pattern) = length pattern" by (simp add: upper_def)
  show ?thesis
    unfolding match_here_iff matches_at_def replace_char_def list_all_iff
    using len assms by (auto simp add: atom_of_translated symbol_matches_def)
qed

lemma finditer_translated:
  "finditer_lookahead (map (\<lambda>c. if c = CHR ''.'' then AnyChar else Lit c)
                         (replace_char (any_char self) (upper pattern))) (seq self)
     = filter (matches_at self pattern) [0..<Suc (length (seq self))]"
  unfolding finditer_lookahead_def
  by (rule filter_cong) (simp_all add: match_here_translated del: upt_Suc)

lemma re_search_translated:
  "re_search (map (\<lambda>c. if c = CHR ''.'' then AnyChar else Lit c)
                (replace_char (any_char self) (upper pattern))) (seq self)
     = list_ex (matches_at self pattern) [0..<Suc (length (seq self))]"
  unfolding re_search_def list_ex_iff
  by (rule bex_cong) (simp_all add: match_here_translated del: upt_Suc)

text \<open>
  \<open>locate\<close> and \<open>contains\<close> on a pattern of the fragment, in terms of \<open>matches_at\<close>:
  both scan the positions from 0 to the length of the sequence.
\<close>

lemma locate_result:
  assumes "length pattern \<le> length (seq self)"
    and "in_fragment (replace_char (any_char self) (upper pattern))"
  shows "locate self pattern =
           (let starts = filter (matches_at self pattern) [0..<Suc (length (seq self))]
            in if starts \<noteq> [] \<and> length (seq self) = 0 then Inl ZeroDivisionError
               else Inr (map (\<lambda>i. i mod length (seq self)) starts))"
  using assms
  by (simp add: locate_def re_compile_in_fragment finditer_translated del: upt_Suc)

lemma contains_result:
  assumes "in_fragment (replace_char (any_char self) (upper query))"
    and "\<not> re_special (any_char self)"
  shows "contains self query =
           Inr (list_ex (matches_at self query) [0..<Suc (length (seq self))])"
  using assms
  by (simp add: contains_def re_compile_in_fragment str_def re_search_translated del: upt_Suc)

text \<open>
  Claim C1, as stated, fails: in the ring \<^verbatim>\<open>ATGC\<close> the pattern \<^verbatim>\<open>CA\<close> lies at index
  3, across the wrap from the last residue to the first, and \<open>locate\<close> reports nothing.
\<close>

theorem locate_wrap_counterexample:
  "locate_ring example_seq ''CA'' = [3] \<and> locate example_seq ''CA'' = Inr []"
  by (simp add: locate_def example_seq_def upper_def upper_char_def ascii_lowercase_def
      ascii_uppercase_def replace_char_def re_compile_def re_special_def finditer_lookahead_def
      locate_ring_def ring_matches_at_def symbol_matches_def upt_rec)

text \<open>
  Claim C1, amended. For a non-empty pattern of the fragment, no longer than the
  sequence, \<open>locate\<close> returns the ascending list, without repetition, of exactly the
  indices \<open>i\<close> such that the pattern, uppercased and with the wildcard standing for any
  residue, lies on the residues \<open>i\<close> to \<open>i + len(p) - 1\<close> inside the sequence. Matches
  may overlap; none goes past the last residue.
\<close>

theorem locate_linear:
  assumes "pattern \<noteq> []"
    and "length pattern \<le> length (seq self)"
    and "in_fragment (replace_char (any_char self) (upper pattern))"
  shows "locate self pattern = Inr (filter (matches_at self pattern) [0..<length (seq self)])
       \<and> sorted (filter (matches_at self pattern) [0..<length (seq self)])
       \<and> distinct (filter (matches_at self pattern) [0..<length (seq self)])
       \<and> (\<forall>i. i \<in> set (filter (matches_at self pattern) [0..<length (seq self)])
              \<longleftrightarrow> matches_at self pattern i)"
proof -
  let ?n = "length (seq self)"
  from assms(1,2) have pos: "0 < ?n" by (cases pattern) auto
  have last: "\<not> matches_at self pattern ?n"
    using assms(1) by (simp add: matches_at_def)
  have range: "filter (matches_at self pattern) [0..<Suc ?n]
                 = filter (matches_at self pattern) [0..<?n]"
    using last by simp
  have idem: "map (\<lambda>i. i mod ?n) (filter (matches_at self pattern) [0..<?n])
                = filter (matches_at self pattern) [0..<?n]"
    by (rule map_idI) simp
  have bound: "\<And>i. matches_at self pattern i \<Longrightarrow> i < ?n"
    using assms(1) by (cases pattern) (auto simp add: matches_at_def)
  have loc: "locate self pattern = Inr (filter (matches_at self pattern) [0..<?n])"
    unfolding locate_result [OF assms(2,3)] Let_def range idem
    using pos by simp
  show ?thesis
    using loc bound by (auto simp add: sorted_wrt_filter)
qed

theorem locate_linear_witness:
  "''aNa'' \<noteq> [] \<and> length ''aNa'' \<le> length (seq overlap_seq)
   \<and> in_fragment (replace_char (any_char overlap_seq) (upper ''aNa''))
   \<and> locate overlap_seq ''aNa'' = Inr [0, 2]"
proof -
  have up: "upper ''aNa'' = ''ANA''"
    by (simp add: upper_def upper_char_def ascii_lowercase_def ascii_uppercase_def)
  have len: "length ''aNa'' \<le> length (seq overlap_seq)"
    by (simp add: overlap_seq_def)
  have frag: "in_fragment (replace_char (any_char overlap_seq) (upper ''aNa''))"
    unfolding up by (simp add: overlap_seq_def replace_char_def in_fragment_def re_special_def)
  have ne: "''aNa'' \<noteq> []" by simp
  have sites: "filter (matches_at overlap_seq ''aNa'') [0..<length (seq overlap_seq)] = [0, 2]"
    unfolding matches_at_def up
    by (simp add: overlap_seq_def symbol_matches_def upt_rec)
  from locate_linear [OF ne len frag] sites
  have "locate overlap_seq ''aNa'' = Inr [0, 2]" by simp
  with ne len frag show ?thesis by blast
qed

text \<open>
  The empty pattern matches at every position, the end included, and the end is reduced
  to 0: the list ends with a second 0.
\<close>

lemma locate_empty_pattern:
  assumes "seq self \<noteq> []"
  shows "locate self [] = Inr ([0..<length (seq self)] @ [0])"
proof -
  have "in_fragment (replace_char (any_char self) (upper []))"
    by (simp add: upper_def replace_char_def in_fragment_def)
  moreover have "map (\<lambda>i. i mod length (seq self)) [0..<length (seq self)]
                   = [0..<length (seq self)]"
    by (rule map_idI) simp
  ultimately show ?thesis
    using locate_result [of "[]" self] assms by (simp add: matches_at_def)
qed

text \<open>
  On a non-empty sequence, for a pattern of the fragment and an ordinary wildcard,
  \<open>locate\<close> returns a non-empty list exactly when \<open>contains\<close> is true: the part of
  claim C7 the code fulfils (with or without wildcards in the pattern).
\<close>

lemma locate_iff_contains:
  assumes "seq self \<noteq> []"
    and "length pattern \<le> length (seq self)"
    and "in_fragment (replace_char (any_char self) (upper pattern))"
    and "\<not> re_special (any_char self)"
  shows "\<exists>xs b. locate self pattern = Inr xs \<and> contains self pattern = Inr b \<and> (xs \<noteq> [] \<longleftrightarrow> b)"
  unfolding locate_result [OF assms(2,3)] contains_result [OF assms(3,4)] Let_def
  using assms(1) by (simp add: filter_empty_conv list_ex_iff del: upt_Suc)

text \<open>
  Claim C7 on the empty sequence and the empty pattern: the pattern is not longer than
  the sequence, \<open>contains\<close> is true, and \<open>locate\<close> finds the match at 0 and divides by
  the length 0. It returns no list.
\<close>

theorem locate_empty_sequence_raises:
  "length ([] :: string) \<le> length (seq empty_seq)
   \<and> contains empty_seq [] = Inr True
   \<and> locate empty_seq [] = Inl ZeroDivisionError"
  by (simp add: locate_def contains_def empty_seq_def upper_def replace_char_def re_compile_def
      re_special_def finditer_lookahead_def re_search_def str_def)

section \<open>Properties of the annealing engine\<close>









end
